theory Spec2Isabelle
  imports Main
begin

section \<open>The dialog provider: a wrapper around the host's native dialogs\<close>

text \<open>
  The module \<^verbatim>\<open>src/index.js\<close> exports five operations (\<^verbatim>\<open>showInformation\<close>,
  \<^verbatim>\<open>showWarning\<close>, \<^verbatim>\<open>showConfirmation\<close>, \<^verbatim>\<open>showError\<close>, \<^verbatim>\<open>openFile\<close>). Each of them
  performs a few synchronous effects on the host application, issues one asynchronous
  request (a message box or a file picker) and continues in a handler once the host has
  settled that request.

  The embedding is in continuation-passing style, as the source is: an operation is a
  value of type \<open>proc\<close>, a tree whose nodes are the effects the code performs and whose
  branching nodes are the asynchronous requests, each with the handler that runs on the
  host's answer. Running a \<open>proc\<close> against a host gives the trace of everything that
  happened, in order.
\<close>

subsection \<open>Values exchanged with the host\<close>

text \<open>JavaScript errors: \<^verbatim>\<open>new Error(msg)\<close>, and the two built-in kinds the code can raise
  (line 211 and line 186).\<close>

datatype js_error = Error string | ReferenceError string | TypeError string

text \<open>The options object handed to \<^verbatim>\<open>dialog.showMessageBox\<close> (lines 53 to 61).\<close>

record message_box_options =
  type :: string
  title :: string
  message :: string
  detail :: string
  buttons :: "string list"
  cancelId :: int
  defaultId :: int

text \<open>What \<^verbatim>\<open>dialog.showMessageBox\<close> resolves with; the code reads \<^verbatim>\<open>response\<close> only.\<close>

record message_box_return_value =
  response :: int
  checkboxChecked :: bool

text \<open>One entry of \<^verbatim>\<open>filters\<close>, and the options object of \<^verbatim>\<open>dialog.showOpenDialog\<close>
  (lines 217 to 222). The fields \<^verbatim>\<open>name\<close> of a filter and \<^verbatim>\<open>title\<close> of the options are
  \<open>filter_name\<close> and \<open>dialog_title\<close> here, apart from the message box's \<open>title\<close>.\<close>

record file_filter =
  filter_name :: string
  extensions :: "string list"

record open_dialog_options =
  dialog_title :: string
  properties :: "string list"
  defaultPath :: string
  filters :: "file_filter list"

record open_dialog_return_value =
  canceled :: bool
  filePaths :: "string list"

text \<open>The second argument a completion callback of the public operations can receive.\<close>

datatype callback_value = BoxResult message_box_return_value | PathResult string

subsection \<open>Effects and processes\<close>

datatype level = Debug | Warn | Err

text \<open>
  The synchronous effects. \<open>Log l op\<close> is a call of the logger at level \<open>l\<close> whose first
  argument is the operation name \<open>op\<close> (the remaining arguments are context values with no
  effect on behaviour). \<open>Bounce\<close> is \<^verbatim>\<open>app.dock.bounce\<close>, \<open>Focus\<close> is \<^verbatim>\<open>app.focus()\<close>,
  \<open>Relaunch\<close> is \<^verbatim>\<open>app.relaunch()\<close>, \<open>Quit\<close> is \<^verbatim>\<open>app.quit()\<close>. \<open>Callback e r\<close> is what
  an observing caller records when its completion callback is invoked with \<open>(e, r)\<close>;
  \<open>None\<close> stands for \<^verbatim>\<open>null\<close> in the first place and for \<^verbatim>\<open>undefined\<close> in the second.
\<close>

datatype action =
    Log level string
  | Bounce string
  | Focus
  | Relaunch
  | Quit
  | Callback "js_error option" "callback_value option"

text \<open>
  A process: nothing left to do, one synchronous effect and then the rest, an exception
  thrown, or an asynchronous request with the handler for its outcome. For the two
  promise-returning host calls the outcome is \<open>Inr\<close> of the resolved value or \<open>Inl\<close> of
  the rejection; \<^verbatim>\<open>fs.access\<close> calls back with an error or with \<^verbatim>\<open>null\<close>. In every
  function of the source the asynchronous request is the last statement, so nothing runs
  between the request and its handler.

  \<^verbatim>\<open>app.quit()\<close> asks the host to close its windows and to terminate; the call returns
  and the statements after it run, so \<open>Quit\<close> is an effect like the others and the
  process goes on after it.

  Callbacks are processes as well: a callback of the caller may perform effects, issue
  requests of its own, and throw.
\<close>

datatype proc =
    Done
  | Act action proc
  | Throw js_error
  | AwaitMessageBox message_box_options "js_error + message_box_return_value \<Rightarrow> proc"
  | AwaitOpenDialog open_dialog_options "js_error + open_dialog_return_value \<Rightarrow> proc"
  | AwaitAccess string "js_error option \<Rightarrow> proc"

text \<open>
  The host: the constants the module reads from it, and its answer to each request.
  \<open>app_name\<close> is \<^verbatim>\<open>app.name\<close>, \<open>isMacOS\<close> is \<^verbatim>\<open>platformTools.isMacOS\<close>, \<open>EOL\<close> is
  \<^verbatim>\<open>os.EOL\<close>, \<open>path_normalize\<close> is the platform's \<^verbatim>\<open>path.normalize\<close>. \<open>global_name\<close> is
  the binding of the identifier \<^verbatim>\<open>name\<close> in the global scope: the module never declares
  it, so line 211 reads a global, and \<open>None\<close> says that there is none. \<open>getPath\<close> is
  \<^verbatim>\<open>app.getPath\<close>, which throws for a name it does not know.
\<close>

record host =
  app_name :: string
  isMacOS :: bool
  EOL :: string
  global_name :: "string option"
  getPath :: "string \<Rightarrow> js_error + string"
  path_normalize :: "string \<Rightarrow> string"
  showMessageBox :: "message_box_options \<Rightarrow> js_error + message_box_return_value"
  showOpenDialog :: "open_dialog_options \<Rightarrow> js_error + open_dialog_return_value"
  access :: "string \<Rightarrow> js_error option"

text \<open>
  The chain \<^verbatim>\<open>promise.then(f).catch(g)\<close> of lines 61 to 73 and 222 to 259. When the
  promise is rejected, \<open>g\<close> runs. When it resolves, \<open>f\<close> runs, and \<^verbatim>\<open>.catch\<close> also sees
  what \<open>f\<close> throws: \<open>caught p g\<close> is the process \<open>p\<close> of \<open>f\<close> with that handler around it.
  It covers \<open>p\<close> as far as \<open>f\<close> runs before it returns, that is up to the first
  asynchronous request: the handler of that request runs later, outside this chain.
\<close>

primrec caught :: "proc \<Rightarrow> (js_error \<Rightarrow> proc) \<Rightarrow> proc" where
  "caught Done g = Done"
| "caught (Act a p) g = Act a (caught p g)"
| "caught (Throw e) g = g e"
| "caught (AwaitMessageBox opts k) g = AwaitMessageBox opts k"
| "caught (AwaitOpenDialog opts k) g = AwaitOpenDialog opts k"
| "caught (AwaitAccess path k) g = AwaitAccess path k"

text \<open>The exception that a process throws before it returns or issues a request, if any.\<close>

primrec thrown :: "proc \<Rightarrow> js_error option" where
  "thrown Done = None"
| "thrown (Act a p) = thrown p"
| "thrown (Throw e) = Some e"
| "thrown (AwaitMessageBox opts k) = None"
| "thrown (AwaitOpenDialog opts k) = None"
| "thrown (AwaitAccess path k) = None"

text \<open>
  \<open>Uncaught e\<close> is an exception that no handler of this module sees: an unhandled
  rejection, or an exception of a callback that the host called. Nothing follows it.
\<close>

datatype event =
    Did action
  | Uncaught js_error
  | MessageBoxRequested message_box_options
  | MessageBoxSettled "js_error + message_box_return_value"
  | OpenDialogRequested open_dialog_options
  | OpenDialogSettled "js_error + open_dialog_return_value"
  | AccessRequested string
  | AccessSettled "js_error option"

text \<open>Running a process against a host: the trace of effects, requests and answers.\<close>

primrec run :: "host \<Rightarrow> proc \<Rightarrow> event list" where
  "run h Done = []"
| "run h (Act a p) = Did a # run h p"
| "run h (Throw e) = [Uncaught e]"
| "run h (AwaitMessageBox opts k) =
     MessageBoxRequested opts # MessageBoxSettled (showMessageBox h opts)
       # run h (k (showMessageBox h opts))"
| "run h (AwaitOpenDialog opts k) =
     OpenDialogRequested opts # OpenDialogSettled (showOpenDialog h opts)
       # run h (k (showOpenDialog h opts))"
| "run h (AwaitAccess p k) =
     AccessRequested p # AccessSettled (access h p) # run h (k (access h p))"

text \<open>
  A call of an exported function either throws before its body starts or returns, having
  started a process.
\<close>

datatype outcome = Thrown js_error | Trace "event list"

definition run_call :: "host \<Rightarrow> js_error + proc \<Rightarrow> outcome" where
  "run_call h c = (case c of Inl e \<Rightarrow> Thrown e | Inr p \<Rightarrow> Trace (run h p))"

subsection \<open>Default parameters and callbacks\<close>

text \<open>A JavaScript default parameter: the default replaces \<^verbatim>\<open>undefined\<close>. An argument
  that may be omitted is an \<open>option\<close>, named with a final \<open>0\<close>.\<close>

definition default_arg :: "'a \<Rightarrow> 'a option \<Rightarrow> 'a" where
  "default_arg d x = (case x of None \<Rightarrow> d | Some v \<Rightarrow> v)"

text \<open>The default callback \<^verbatim>\<open>() => {}\<close>.\<close>

definition noop :: "js_error option \<Rightarrow> 'a option \<Rightarrow> proc" where
  "noop e r = Done"

text \<open>Callbacks of a caller that records what it is called with, and one that records it
  and then throws.\<close>

definition report_box :: "js_error option \<Rightarrow> message_box_return_value option \<Rightarrow> proc" where
  "report_box e r = Act (Callback e (map_option BoxResult r)) Done"

definition report_path :: "js_error option \<Rightarrow> string option \<Rightarrow> proc" where
  "report_path e r = Act (Callback e (map_option PathResult r)) Done"

definition report_path_and_throw :: "js_error option \<Rightarrow> string option \<Rightarrow> proc" where
  "report_path_and_throw e r =
     Act (Callback e (map_option PathResult r)) (Throw (Error ''callback failed''))"

subsection \<open>The module\<close>

text \<open>\<^verbatim>\<open>appProductName\<close> (line 35).\<close>

definition appProductName :: "host \<Rightarrow> string" where
  "appProductName h = app_name h"

text \<open>The object literal of lines 53 to 61, from the four values it is built of.\<close>

definition messageBoxOptions ::
  "string \<Rightarrow> string \<Rightarrow> string list \<Rightarrow> string \<Rightarrow> message_box_options" where
  "messageBoxOptions title1 message1 buttonList1 type1 =
     \<lparr>type = type1, title = title1, message = title1, detail = message1,
      buttons = buttonList1, cancelId = 0, defaultId = 0\<rparr>"

text \<open>
  \<^verbatim>\<open>createMessageDialog\<close> (lines 49 to 74). The \<^verbatim>\<open>.catch\<close> handler of lines 67 to 73 is
  the handler of a rejected request and, through \<open>caught\<close>, of an exception of the
  \<^verbatim>\<open>.then\<close> handler of lines 61 to 66, which is an exception of the callback.
\<close>

definition createMessageDialog ::
  "host \<Rightarrow> string option \<Rightarrow> string option \<Rightarrow> string list option \<Rightarrow> string option \<Rightarrow>
   (js_error option \<Rightarrow> message_box_return_value option \<Rightarrow> proc) option \<Rightarrow> proc" where
  "createMessageDialog h title0 message0 buttonList0 type0 callback0 =
     (let title = default_arg (appProductName h) title0;
          message = default_arg title message0;
          buttonList = default_arg [''Dismiss''] buttonList0;
          type = default_arg ''info'' type0;
          callback = default_arg noop callback0
      in Act (Log Debug ''createMessageDialog'')
          (AwaitMessageBox (messageBoxOptions title message buttonList type)
             (\<lambda>settled. case settled of
                Inr result \<Rightarrow>
                  caught
                    (Act (Log Debug ''createMessageDialog'') (callback None (Some result)))
                    (\<lambda>error. Act (Log Err ''createMessageDialog'') (callback (Some error) None))
              | Inl error \<Rightarrow>
                  Act (Log Err ''createMessageDialog'') (callback (Some error) None))))"

text \<open>\<^verbatim>\<open>checkFileExists\<close> (lines 85 to 102).\<close>

definition checkFileExists ::
  "string \<Rightarrow> (js_error option \<Rightarrow> unit option \<Rightarrow> proc) option \<Rightarrow> proc" where
  "checkFileExists filePath callback0 =
     (let callback = default_arg noop callback0
      in Act (Log Debug ''checkFileExists'')
          (AwaitAccess filePath
             (\<lambda>error. case error of
                Some e \<Rightarrow> Act (Log Err ''checkFileExists'') (callback (Some e) None)
              | None \<Rightarrow> callback None None)))"

text \<open>\<^verbatim>\<open>showInformation\<close> (lines 114 to 119).\<close>

definition showInformation ::
  "host \<Rightarrow> string option \<Rightarrow> string option \<Rightarrow>
   (js_error option \<Rightarrow> message_box_return_value option \<Rightarrow> proc) option \<Rightarrow> proc" where
  "showInformation h title0 message0 callback0 =
     (let callback = default_arg noop callback0
      in Act (Log Debug ''showInformation'')
          (createMessageDialog h title0 message0 (Some [''Dismiss'']) (Some ''info'')
             (Some callback)))"

text \<open>\<^verbatim>\<open>showWarning\<close> (lines 129 to 134).\<close>

definition showWarning ::
  "host \<Rightarrow> string option \<Rightarrow>
   (js_error option \<Rightarrow> message_box_return_value option \<Rightarrow> proc) option \<Rightarrow> proc" where
  "showWarning h message0 callback0 =
     (let callback = default_arg noop callback0
      in Act (Log Debug ''showWarning'')
          (createMessageDialog h (Some ''Warning'') message0 (Some [''Dismiss''])
             (Some ''warning'') (Some callback)))"

text \<open>\<^verbatim>\<open>showConfirmation\<close> (lines 145 to 153).\<close>

definition showConfirmation ::
  "host \<Rightarrow> string option \<Rightarrow> string option \<Rightarrow>
   (js_error option \<Rightarrow> message_box_return_value option \<Rightarrow> proc) option \<Rightarrow> proc" where
  "showConfirmation h title0 message0 callback0 =
     (let callback = default_arg noop callback0
      in Act (Log Debug ''showConfirmation'')
          (Act Focus
             (createMessageDialog h title0 message0 (Some [''No'', ''Yes''])
                (Some ''question'') (Some callback))))"

text \<open>
  \<^verbatim>\<open>showError\<close> (lines 163 to 198). The handler passed to \<^verbatim>\<open>createMessageDialog\<close> returns
  after \<^verbatim>\<open>callback(error)\<close> when there is an error; otherwise it relaunches and quits, or
  quits, or does neither, and in all three cases goes on to \<^verbatim>\<open>callback(null, result)\<close>.
  Reading \<^verbatim>\<open>result.response\<close> of no result throws (\<^verbatim>\<open>createMessageDialog\<close> never calls
  the handler so).
\<close>

definition showError ::
  "host \<Rightarrow> string option \<Rightarrow>
   (js_error option \<Rightarrow> message_box_return_value option \<Rightarrow> proc) option \<Rightarrow> proc" where
  "showError h message0 callback0 =
     (let callback = default_arg noop callback0;
          handler = (\<lambda>error result0.
            case error of
              Some e \<Rightarrow> Act (Log Err ''showError'') (callback (Some e) None)
            | None \<Rightarrow>
                (case result0 of
                   None \<Rightarrow> Throw (TypeError ''Cannot read properties of undefined'')
                 | Some result \<Rightarrow>
                     if response result = 1 then
                       Act Relaunch (Act Quit (callback None (Some result)))
                     else if response result = 2 then
                       Act Quit (callback None (Some result))
                     else callback None (Some result)));
          dialog = createMessageDialog h (Some ''Error'') message0
                     (Some [''Dismiss'', ''Restart'', ''Quit'']) (Some ''error'') (Some handler)
      in Act (Log Debug ''showError'')
          (if isMacOS h then Act (Bounce ''critical'') (Act Focus dialog)
           else Act Focus dialog))"

text \<open>
  The default of \<^verbatim>\<open>initialFolder\<close> (line 211): \<^verbatim>\<open>app.getPath(name)\<close>. The identifier
  \<^verbatim>\<open>name\<close> is bound nowhere in the module; in strict mode, reading an identifier that
  has no binding throws a \<^verbatim>\<open>ReferenceError\<close>.
\<close>

definition default_initialFolder :: "host \<Rightarrow> js_error + string" where
  "default_initialFolder h =
     (case global_name h of
        None \<Rightarrow> Inl (ReferenceError ''name is not defined'')
      | Some n \<Rightarrow> getPath h n)"

text \<open>
  \<^verbatim>\<open>openFile\<close> (lines 211 to 260). \<open>eval_initialFolder\<close> is the value of the parameter
  \<^verbatim>\<open>initialFolder\<close>: the argument, or the default when the argument is omitted. Default parameters are evaluated before the body, so
  an exception of the default of \<^verbatim>\<open>initialFolder\<close> leaves the call before its first
  statement. The \<^verbatim>\<open>.catch\<close> handler of lines 253 to 259 also sees what the \<^verbatim>\<open>.then\<close>
  handler throws before it returns; the callback of \<^verbatim>\<open>checkFileExists\<close> runs when
  \<^verbatim>\<open>fs.access\<close> calls back, after that.
\<close>

text \<open>The object literal of lines 217 to 222, from the three values it is built of.\<close>

definition openDialogOptions ::
  "string \<Rightarrow> string \<Rightarrow> string list \<Rightarrow> open_dialog_options" where
  "openDialogOptions dialogTitle1 initialFolder1 fileExtensionList1 =
     \<lparr>dialog_title = dialogTitle1,
      properties = [''openFile'', ''showHiddenFiles'', ''treatPackageAsDirectory''],
      defaultPath = initialFolder1,
      filters = [\<lparr>filter_name = ''Filter'', extensions = fileExtensionList1\<rparr>]\<rparr>"

definition eval_initialFolder :: "host \<Rightarrow> string option \<Rightarrow> js_error + string" where
  "eval_initialFolder h initialFolder0 =
     (case initialFolder0 of None \<Rightarrow> default_initialFolder h | Some f \<Rightarrow> Inr f)"

definition openFile ::
  "host \<Rightarrow> string option \<Rightarrow> string list option \<Rightarrow> string option \<Rightarrow>
   (js_error option \<Rightarrow> string option \<Rightarrow> proc) option \<Rightarrow> js_error + proc" where
  "openFile h dialogTitle0 fileExtensionList0 initialFolder0 callback0 =
     (let dialogTitle = default_arg (appProductName h) dialogTitle0;
          fileExtensionList = default_arg [''*''] fileExtensionList0
      in case eval_initialFolder h initialFolder0 of
           Inl exn \<Rightarrow> Inl exn
         | Inr initialFolder \<Rightarrow>
             (let callback = default_arg noop callback0
              in Inr (Act (Log Debug ''openFile'')
                   (AwaitOpenDialog
                      (openDialogOptions dialogTitle initialFolder fileExtensionList)
                      (\<lambda>settled. case settled of
                         Inl error \<Rightarrow> Act (Log Err ''openFile'') (callback (Some error) None)
                       | Inr result \<Rightarrow>
                           caught
                             (case filePaths result of
                                [] \<Rightarrow>
                                  Act (Log Warn ''openFile'')
                                    (callback (Some (Error ''file selection empty'')) None)
                              | first # rest \<Rightarrow>
                                  (let filePath = path_normalize h first
                                   in checkFileExists filePath
                                        (Some (\<lambda>error unused. case error of
                                           Some e \<Rightarrow>
                                             Act (Log Warn ''openFile'')
                                               (showWarning h (Some (''File not found.'' @ EOL h))
                                                  (Some (\<lambda>e1 r1. callback (Some e) None)))
                                         | None \<Rightarrow> callback None (Some filePath)))))
                             (\<lambda>error. Act (Log Err ''openFile'')
                                (callback (Some error) None)))))))"

subsection \<open>Path normalisation\<close>

text \<open>
  Modelled from the spec: \<^verbatim>\<open>path.normalize\<close>, which line 236 calls, is a function of
  Node's library and no source of it is in this repository. The spec says that it
  resolves \<^verbatim>\<open>.\<close> and \<^verbatim>\<open>..\<close> segments and the separator style, and that it turns
  \<^verbatim>\<open>./a/../b.txt\<close> into \<^verbatim>\<open>b.txt\<close>. The functions below are the POSIX variant, after Node's
  \<^verbatim>\<open>normalizeString\<close>, at the level of path segments: the path is cut at every \<^verbatim>\<open>/\<close>;
  empty segments and \<^verbatim>\<open>.\<close> are dropped; \<^verbatim>\<open>..\<close> removes the segment before it, and stays
  when there is none to remove and the path is relative; a leading and a trailing \<^verbatim>\<open>/\<close>
  are kept; a path with nothing left is \<^verbatim>\<open>.\<close>. The operations take the platform's
  function from the host (\<open>path_normalize\<close>), so what is proved of \<open>openFile\<close> holds for
  any variant.
\<close>

fun split_path :: "string \<Rightarrow> string list" where
  "split_path [] = [[]]"
| "split_path (c # cs) =
     (if c = CHR ''/'' then [] # split_path cs
      else (case split_path cs of [] \<Rightarrow> [[c]] | s # ss \<Rightarrow> (c # s) # ss))"

fun join_path :: "string list \<Rightarrow> string" where
  "join_path [] = []"
| "join_path [s] = s"
| "join_path (s # t # ss) = s @ CHR ''/'' # join_path (t # ss)"

text \<open>\<open>res\<close> holds the segments kept so far, the last one first.\<close>

fun normalizeString :: "bool \<Rightarrow> string list \<Rightarrow> string list \<Rightarrow> string list" where
  "normalizeString allowAboveRoot res [] = rev res"
| "normalizeString allowAboveRoot res (s # ss) =
     (if s = [] \<or> s = ''.'' then normalizeString allowAboveRoot res ss
      else if s = ''..'' then
        (if res \<noteq> [] \<and> hd res \<noteq> ''..'' then normalizeString allowAboveRoot (tl res) ss
         else if allowAboveRoot then normalizeString allowAboveRoot (''..'' # res) ss
         else normalizeString allowAboveRoot res ss)
      else normalizeString allowAboveRoot (s # res) ss)"

text \<open>Modelled from the spec: \<^verbatim>\<open>path.normalize\<close> of Node on a POSIX platform.\<close>

definition posix_normalize :: "string \<Rightarrow> string" where
  "posix_normalize p =
     (if p = [] then ''.''
      else
        (let isAbsolute = (hd p = CHR ''/'');
             trailingSeparator = (last p = CHR ''/'');
             q = join_path (normalizeString (\<not> isAbsolute) [] (split_path p))
         in if q = [] then (if isAbsolute then ''/'' else if trailingSeparator then ''./'' else ''.'')
            else (if isAbsolute then ''/'' else []) @ q @ (if trailingSeparator then ''/'' else [])))"

subsection \<open>Reading a trace\<close>

text \<open>The relaunches and quits of a trace, in order.\<close>

definition lifecycle :: "event list \<Rightarrow> action list" where
  "lifecycle tr = [a. Did a \<leftarrow> tr, a = Relaunch \<or> a = Quit]"

text \<open>What happened after the first quit.\<close>

definition after_quit :: "event list \<Rightarrow> event list" where
  "after_quit tr = drop 1 (dropWhile (\<lambda>e. e \<noteq> Did Quit) tr)"

text \<open>The message boxes requested and the callbacks observed.\<close>

definition message_boxes :: "event list \<Rightarrow> message_box_options list" where
  "message_boxes tr = [opts. MessageBoxRequested opts \<leftarrow> tr]"

definition callbacks :: "event list \<Rightarrow> action list" where
  "callbacks tr = [Callback e r. Did (Callback e r) \<leftarrow> tr]"


text \<open>The events of a call that returned.\<close>

definition events :: "outcome \<Rightarrow> event list" where
  "events out = (case out of Thrown e \<Rightarrow> [] | Trace tr \<Rightarrow> tr)"


text \<open>The title, the \<^verbatim>\<open>message\<close> field and the \<^verbatim>\<open>detail\<close> field of each message box.\<close>

definition texts :: "event list \<Rightarrow> (string \<times> string \<times> string) list" where
  "texts tr = map (\<lambda>opts. (title opts, message opts, detail opts)) (message_boxes tr)"

subsection \<open>A scripted host\<close>

text \<open>
  A host for concrete runs: in every message box the user clicks button \<open>click\<close> when
  the box has such a button and closes the box otherwise, which the host reports as the
  box's \<^verbatim>\<open>cancelId\<close>; the picker returns the paths \<open>picked\<close>; the existence probe
  answers \<open>probe\<close>. It is a POSIX host on macOS where the identifier \<^verbatim>\<open>name\<close> has no
  global binding.
\<close>

definition scripted_host :: "int \<Rightarrow> string list \<Rightarrow> js_error option \<Rightarrow> host" where
  "scripted_host click picked probe =
     \<lparr>app_name = ''Demo'', isMacOS = True, EOL = [CHR 0x0A], global_name = None,
      getPath = (\<lambda>n. Inl (Error ''Failed to get path'')),
      path_normalize = posix_normalize,
      showMessageBox = (\<lambda>opts.
        Inr \<lparr>response = (if 0 \<le> click \<and> click < int (length (buttons opts)) then click
                         else cancelId opts),
             checkboxChecked = False\<rparr>),
      showOpenDialog = (\<lambda>opts. Inr \<lparr>canceled = (picked = []), filePaths = picked\<rparr>),
      access = (\<lambda>p. probe)\<rparr>"

section \<open>Traces of the operations\<close>

lemma default_arg_simps [simp]:
  "default_arg d None = d" "default_arg d (Some v) = v"
  by (simp_all add: default_arg_def)

text \<open>A process that does not throw is the same with a handler around it.\<close>

lemma caught_returns: "thrown p = None \<Longrightarrow> caught p g = p"
  by (induction p) simp_all

text \<open>The trace of \<open>createMessageDialog\<close>, for any host and any arguments.\<close>

lemma run_createMessageDialog:
  "run h (createMessageDialog h title0 message0 buttonList0 type0 callback0) =
     [Did (Log Debug ''createMessageDialog''),
      MessageBoxRequested
        (messageBoxOptions (default_arg (app_name h) title0)
           (default_arg (default_arg (app_name h) title0) message0)
           (default_arg [''Dismiss''] buttonList0) (default_arg ''info'' type0)),
      MessageBoxSettled (showMessageBox h
        (messageBoxOptions (default_arg (app_name h) title0)
           (default_arg (default_arg (app_name h) title0) message0)
           (default_arg [''Dismiss''] buttonList0) (default_arg ''info'' type0)))]
     @ (case showMessageBox h
        (messageBoxOptions (default_arg (app_name h) title0)
           (default_arg (default_arg (app_name h) title0) message0)
           (default_arg [''Dismiss''] buttonList0) (default_arg ''info'' type0)) of
          Inr r \<Rightarrow> Did (Log Debug ''createMessageDialog'')
                     # run h (caught (default_arg noop callback0 None (Some r))
                                (\<lambda>error. Act (Log Err ''createMessageDialog'')
                                   (default_arg noop callback0 (Some error) None)))
        | Inl e \<Rightarrow> Did (Log Err ''createMessageDialog'')
                     # run h (default_arg noop callback0 (Some e) None))"
  by (simp add: createMessageDialog_def appProductName_def Let_def split: sum.split)

lemma run_showInformation:
  "run h (showInformation h title0 message0 callback0) =
     Did (Log Debug ''showInformation'')
       # run h (createMessageDialog h title0 message0 (Some [''Dismiss'']) (Some ''info'')
                  (Some (default_arg noop callback0)))"
  by (simp add: showInformation_def)

lemma run_showWarning:
  "run h (showWarning h message0 callback0) =
     Did (Log Debug ''showWarning'')
       # run h (createMessageDialog h (Some ''Warning'') message0 (Some [''Dismiss''])
                  (Some ''warning'') (Some (default_arg noop callback0)))"
  by (simp add: showWarning_def)

lemma run_showConfirmation:
  "run h (showConfirmation h title0 message0 callback0) =
     Did (Log Debug ''showConfirmation'') # Did Focus
       # run h (createMessageDialog h title0 message0 (Some [''No'', ''Yes''])
                  (Some ''question'') (Some (default_arg noop callback0)))"
  by (simp add: showConfirmation_def)

text \<open>
  \<open>showError\<close> when the host resolves the dialog with \<open>r\<close>: the effects before the
  request, the request and its answer, the relaunch and the quit that the clicked button
  asks for, and then the caller's callback; when the callback throws, the \<^verbatim>\<open>.catch\<close>
  handler of \<open>createMessageDialog\<close> calls the handler of \<open>showError\<close> with the exception,
  and that handler calls the callback with it.
\<close>

lemma run_showError_resolved:
  assumes "showMessageBox h
             (messageBoxOptions ''Error'' (default_arg ''Error'' message0)
                [''Dismiss'', ''Restart'', ''Quit''] ''error'') = Inr r"
  shows "run h (showError h message0 callback0) =
     (Did (Log Debug ''showError'')
        # (if isMacOS h then [Did (Bounce ''critical'')] else []))
     @ [Did Focus, Did (Log Debug ''createMessageDialog''),
        MessageBoxRequested
          (messageBoxOptions ''Error'' (default_arg ''Error'' message0)
             [''Dismiss'', ''Restart'', ''Quit''] ''error''),
        MessageBoxSettled (Inr r),
        Did (Log Debug ''createMessageDialog'')]
     @ map Did (if response r = 1 then [Relaunch, Quit]
                else if response r = 2 then [Quit] else [])
     @ run h (caught (default_arg noop callback0 None (Some r))
          (\<lambda>error. Act (Log Err ''createMessageDialog'')
             (Act (Log Err ''showError'') (default_arg noop callback0 (Some error) None))))"
  using assms by (simp add: showError_def Let_def run_createMessageDialog)

text \<open>\<open>showError\<close> when the host rejects the request: neither relaunch nor quit.\<close>

lemma run_showError_rejected:
  assumes "showMessageBox h
             (messageBoxOptions ''Error'' (default_arg ''Error'' message0)
                [''Dismiss'', ''Restart'', ''Quit''] ''error'') = Inl e"
  shows "run h (showError h message0 callback0) =
     (Did (Log Debug ''showError'')
        # (if isMacOS h then [Did (Bounce ''critical'')] else []))
     @ [Did Focus, Did (Log Debug ''createMessageDialog''),
        MessageBoxRequested
          (messageBoxOptions ''Error'' (default_arg ''Error'' message0)
             [''Dismiss'', ''Restart'', ''Quit''] ''error''),
        MessageBoxSettled (Inl e),
        Did (Log Err ''createMessageDialog''), Did (Log Err ''showError'')]
     @ run h (default_arg noop callback0 (Some e) None)"
  using assms by (simp add: showError_def Let_def run_createMessageDialog)

lemma run_checkFileExists:
  "run h (checkFileExists filePath callback0) =
     [Did (Log Debug ''checkFileExists''), AccessRequested filePath,
      AccessSettled (access h filePath)]
     @ (case access h filePath of
          Some e \<Rightarrow> Did (Log Err ''checkFileExists'')
                      # run h (default_arg noop callback0 (Some e) None)
        | None \<Rightarrow> run h (default_arg noop callback0 None None))"
  by (simp add: checkFileExists_def Let_def split: option.split)

text \<open>\<open>checkFileExists\<close> returns once it has asked for the probe.\<close>

lemma caught_checkFileExists:
  "caught (checkFileExists filePath callback0) g = checkFileExists filePath callback0"
  by (simp add: checkFileExists_def Let_def)

text \<open>
  \<open>openFile\<close> once the picker has resolved: with no path, with a path that the probe
  finds, and with a path that the probe does not find.
\<close>

lemma run_openFile_empty:
  assumes "eval_initialFolder h initialFolder0 = Inr folder"
    and "showOpenDialog h
           (openDialogOptions (default_arg (app_name h) dialogTitle0) folder
              (default_arg [''*''] fileExtensionList0)) = Inr result"
    and "filePaths result = []"
  shows "run_call h (openFile h dialogTitle0 fileExtensionList0 initialFolder0 callback0) =
     Trace ([Did (Log Debug ''openFile''),
        OpenDialogRequested
          (openDialogOptions (default_arg (app_name h) dialogTitle0) folder
             (default_arg [''*''] fileExtensionList0)),
        OpenDialogSettled (Inr result),
        Did (Log Warn ''openFile'')]
       @ run h (caught (default_arg noop callback0 (Some (Error ''file selection empty'')) None)
            (\<lambda>error. Act (Log Err ''openFile'')
               (default_arg noop callback0 (Some error) None))))"
  using assms by (simp add: openFile_def run_call_def appProductName_def Let_def)

lemma run_openFile_found:
  assumes "eval_initialFolder h initialFolder0 = Inr folder"
    and "showOpenDialog h
           (openDialogOptions (default_arg (app_name h) dialogTitle0) folder
              (default_arg [''*''] fileExtensionList0)) = Inr result"
    and "filePaths result = first # rest"
    and "access h (path_normalize h first) = None"
  shows "run_call h (openFile h dialogTitle0 fileExtensionList0 initialFolder0 callback0) =
     Trace ([Did (Log Debug ''openFile''),
        OpenDialogRequested
          (openDialogOptions (default_arg (app_name h) dialogTitle0) folder
             (default_arg [''*''] fileExtensionList0)),
        OpenDialogSettled (Inr result),
        Did (Log Debug ''checkFileExists''),
        AccessRequested (path_normalize h first),
        AccessSettled None]
       @ run h (default_arg noop callback0 None (Some (path_normalize h first))))"
  using assms
  by (simp add: openFile_def run_call_def appProductName_def Let_def caught_checkFileExists
      run_checkFileExists)

lemma run_openFile_missing:
  assumes "eval_initialFolder h initialFolder0 = Inr folder"
    and "showOpenDialog h
           (openDialogOptions (default_arg (app_name h) dialogTitle0) folder
              (default_arg [''*''] fileExtensionList0)) = Inr result"
    and "filePaths result = first # rest"
    and "access h (path_normalize h first) = Some e"
  shows "run_call h (openFile h dialogTitle0 fileExtensionList0 initialFolder0 callback0) =
     Trace ([Did (Log Debug ''openFile''),
        OpenDialogRequested
          (openDialogOptions (default_arg (app_name h) dialogTitle0) folder
             (default_arg [''*''] fileExtensionList0)),
        OpenDialogSettled (Inr result),
        Did (Log Debug ''checkFileExists''),
        AccessRequested (path_normalize h first),
        AccessSettled (Some e),
        Did (Log Err ''checkFileExists''),
        Did (Log Warn ''openFile''),
        Did (Log Debug ''showWarning''),
        Did (Log Debug ''createMessageDialog''),
        MessageBoxRequested
          \<lparr>type = ''warning'', title = ''Warning'', message = ''Warning'',
           detail = ''File not found.'' @ EOL h, buttons = [''Dismiss''],
           cancelId = 0, defaultId = 0\<rparr>,
        MessageBoxSettled (showMessageBox h
          \<lparr>type = ''warning'', title = ''Warning'', message = ''Warning'',
           detail = ''File not found.'' @ EOL h, buttons = [''Dismiss''],
           cancelId = 0, defaultId = 0\<rparr>),
        Did (Log (case showMessageBox h
          \<lparr>type = ''warning'', title = ''Warning'', message = ''Warning'',
           detail = ''File not found.'' @ EOL h, buttons = [''Dismiss''],
           cancelId = 0, defaultId = 0\<rparr> of Inr r \<Rightarrow> Debug | Inl x \<Rightarrow> Err)
          ''createMessageDialog'')]
       @ run h (case showMessageBox h
          \<lparr>type = ''warning'', title = ''Warning'', message = ''Warning'',
           detail = ''File not found.'' @ EOL h, buttons = [''Dismiss''],
           cancelId = 0, defaultId = 0\<rparr> of
             Inr r \<Rightarrow> caught (default_arg noop callback0 (Some e) None)
                        (\<lambda>error. Act (Log Err ''createMessageDialog'')
                           (default_arg noop callback0 (Some e) None))
           | Inl x \<Rightarrow> default_arg noop callback0 (Some e) None))"
  using assms
  by (simp add: openFile_def run_call_def appProductName_def Let_def caught_checkFileExists
      run_checkFileExists run_showWarning run_createMessageDialog messageBoxOptions_def
      split: sum.split)

text \<open>When the picker itself fails, the callback gets the host's error.\<close>

lemma run_openFile_rejected:
  assumes "eval_initialFolder h initialFolder0 = Inr folder"
    and "showOpenDialog h
           (openDialogOptions (default_arg (app_name h) dialogTitle0) folder
              (default_arg [''*''] fileExtensionList0)) = Inl e"
  shows "run_call h (openFile h dialogTitle0 fileExtensionList0 initialFolder0 callback0) =
     Trace ([Did (Log Debug ''openFile''),
        OpenDialogRequested
          (openDialogOptions (default_arg (app_name h) dialogTitle0) folder
             (default_arg [''*''] fileExtensionList0)),
        OpenDialogSettled (Inl e),
        Did (Log Err ''openFile'')]
       @ run h (default_arg noop callback0 (Some e) None))"
  using assms by (simp add: openFile_def run_call_def appProductName_def Let_def)

text \<open>Reading a trace, one event at a time.\<close>

lemma lifecycle_simps [simp]:
  "lifecycle [] = []"
  "lifecycle (Did Relaunch # tr) = Relaunch # lifecycle tr"
  "lifecycle (Did Quit # tr) = Quit # lifecycle tr"
  "lifecycle (Did (Log l s) # tr) = lifecycle tr"
  "lifecycle (Did (Bounce s) # tr) = lifecycle tr"
  "lifecycle (Did Focus # tr) = lifecycle tr"
  "lifecycle (Did (Callback e r) # tr) = lifecycle tr"
  "lifecycle (MessageBoxRequested opts # tr) = lifecycle tr"
  "lifecycle (MessageBoxSettled a # tr) = lifecycle tr"
  "lifecycle (Uncaught x # tr) = lifecycle tr"
  "lifecycle (xs @ ys) = lifecycle xs @ lifecycle ys"
  by (simp_all add: lifecycle_def)

lemma message_boxes_simps [simp]:
  "message_boxes [] = []"
  "message_boxes (Did a # tr) = message_boxes tr"
  "message_boxes (MessageBoxRequested opts # tr) = opts # message_boxes tr"
  "message_boxes (MessageBoxSettled s # tr) = message_boxes tr"
  "message_boxes (Uncaught x # tr) = message_boxes tr"
  "message_boxes (xs @ ys) = message_boxes xs @ message_boxes ys"
  by (simp_all add: message_boxes_def)

lemma callbacks_simps [simp]:
  "callbacks [] = []"
  "callbacks (Did (Callback e r) # tr) = Callback e r # callbacks tr"
  "callbacks (Did (Log l s) # tr) = callbacks tr"
  "callbacks (Did (Bounce s) # tr) = callbacks tr"
  "callbacks (Did Focus # tr) = callbacks tr"
  "callbacks (Did Relaunch # tr) = callbacks tr"
  "callbacks (Did Quit # tr) = callbacks tr"
  "callbacks (MessageBoxRequested opts # tr) = callbacks tr"
  "callbacks (MessageBoxSettled a # tr) = callbacks tr"
  "callbacks (OpenDialogRequested od # tr) = callbacks tr"
  "callbacks (OpenDialogSettled oa # tr) = callbacks tr"
  "callbacks (AccessRequested path # tr) = callbacks tr"
  "callbacks (AccessSettled pa # tr) = callbacks tr"
  "callbacks (Uncaught x # tr) = callbacks tr"
  "callbacks (xs @ ys) = callbacks xs @ callbacks ys"
  by (simp_all add: callbacks_def)

subsection \<open>The model of \<open>path.normalize\<close>\<close>

text \<open>
  What is left after \<open>normalizeString\<close> has no empty segment and no \<^verbatim>\<open>.\<close>, and an
  absolute path keeps no \<^verbatim>\<open>..\<close> either.
\<close>

lemma normalizeString_no_dot:
  assumes "\<forall>s \<in> set res. s \<noteq> [] \<and> s \<noteq> ''.''"
  shows "\<forall>s \<in> set (normalizeString a res ss). s \<noteq> [] \<and> s \<noteq> ''.''"
  using assms
proof (induction ss arbitrary: res)
  case Nil
  then show ?case by simp
next
  case (Cons s ss)
  have tl_ok: "\<forall>s \<in> set (tl res). s \<noteq> [] \<and> s \<noteq> ''.''"
    using Cons.prems by (cases res) auto
  have up_ok: "\<forall>s \<in> set (''..'' # res). s \<noteq> [] \<and> s \<noteq> ''.''"
    using Cons.prems by simp
  consider (skip) "s = [] \<or> s = ''.''"
    | (pop) "s = ''..''" "res \<noteq> [] \<and> hd res \<noteq> ''..''"
    | (up) "s = ''..''" "\<not> (res \<noteq> [] \<and> hd res \<noteq> ''..'')" "a"
    | (stay) "s = ''..''" "\<not> (res \<noteq> [] \<and> hd res \<noteq> ''..'')" "\<not> a"
    | (push) "s \<noteq> []" "s \<noteq> ''.''" "s \<noteq> ''..''"
    by blast
  then show ?case
  proof cases
    case skip
    then have "normalizeString a res (s # ss) = normalizeString a res ss" by auto
    then show ?thesis using Cons.IH [OF Cons.prems] by simp
  next
    case pop
    then have "normalizeString a res (s # ss) = normalizeString a (tl res) ss" by simp
    then show ?thesis using Cons.IH [OF tl_ok] by simp
  next
    case up
    then have "normalizeString a res (s # ss) = normalizeString a (''..'' # res) ss" by auto
    then show ?thesis using Cons.IH [OF up_ok] by simp
  next
    case stay
    then have "normalizeString a res (s # ss) = normalizeString a res ss" by auto
    then show ?thesis using Cons.IH [OF Cons.prems] by simp
  next
    case push
    then have eq: "normalizeString a res (s # ss) = normalizeString a (s # res) ss" by simp
    have "\<forall>t \<in> set (s # res). t \<noteq> [] \<and> t \<noteq> ''.''"
      using push Cons.prems by simp
    from Cons.IH [OF this] show ?thesis using eq by simp
  qed
qed

lemma normalizeString_absolute_no_dotdot:
  assumes "''..'' \<notin> set res"
  shows "''..'' \<notin> set (normalizeString False res ss)"
  using assms
proof (induction ss arbitrary: res)
  case Nil
  then show ?case by simp
next
  case (Cons s ss)
  have tl_ok: "''..'' \<notin> set (tl res)"
    using Cons.prems by (cases res) auto
  consider (skip) "s = [] \<or> s = ''.''"
    | (pop) "s = ''..''" "res \<noteq> [] \<and> hd res \<noteq> ''..''"
    | (stay) "s = ''..''" "\<not> (res \<noteq> [] \<and> hd res \<noteq> ''..'')"
    | (push) "s \<noteq> []" "s \<noteq> ''.''" "s \<noteq> ''..''"
    by blast
  then show ?case
  proof cases
    case skip
    then have "normalizeString False res (s # ss) = normalizeString False res ss" by auto
    then show ?thesis using Cons.IH [OF Cons.prems] by simp
  next
    case pop
    then have "normalizeString False res (s # ss) = normalizeString False (tl res) ss" by simp
    then show ?thesis using Cons.IH [OF tl_ok] by simp
  next
    case stay
    then have "normalizeString False res (s # ss) = normalizeString False res ss" by auto
    then show ?thesis using Cons.IH [OF Cons.prems] by simp
  next
    case push
    then have eq: "normalizeString False res (s # ss) = normalizeString False (s # res) ss"
      by simp
    have "''..'' \<notin> set (s # res)"
      using push Cons.prems by auto
    from Cons.IH [OF this] show ?thesis using eq by simp
  qed
qed


section \<open>The claims\<close>

subsection \<open>The error dialog\<close>

text \<open>
  Claim C1. For every call of \<open>showError\<close> whose dialog the host resolves: a clicked
  index of 1 gives exactly one relaunch followed by exactly one quit; an index of 2 gives
  exactly one quit and no relaunch; an index of 0 (or any other) gives neither. The
  relaunches and quits of the whole run are these, followed by those the caller's own
  callback performs (none for a callback that only records its arguments). The callback
  is called with \<open>(null, r)\<close>, and, should that call throw, with the exception: the
  operation adds no relaunch and no quit there either.
\<close>

theorem showError_click:
  assumes "showMessageBox h
             (messageBoxOptions ''Error'' (default_arg ''Error'' message0)
                [''Dismiss'', ''Restart'', ''Quit''] ''error'') = Inr r"
  shows "lifecycle (run h (showError h message0 callback0)) =
     (if response r = 1 then [Relaunch, Quit]
      else if response r = 2 then [Quit]
      else [])
     @ lifecycle (run h (caught (default_arg noop callback0 None (Some r))
          (\<lambda>error. Act (Log Err ''createMessageDialog'')
             (Act (Log Err ''showError'') (default_arg noop callback0 (Some error) None)))))"
  by (simp add: run_showError_resolved [OF assms])

theorem showError_click_witness:
  "showMessageBox (scripted_host 1 [] None)
     (messageBoxOptions ''Error'' (default_arg ''Error'' (Some ''boom''))
        [''Dismiss'', ''Restart'', ''Quit''] ''error'')
     = Inr \<lparr>response = 1, checkboxChecked = False\<rparr>
   \<and> lifecycle (run (scripted_host 1 [] None)
         (showError (scripted_host 1 [] None) (Some ''boom'') (Some report_box)))
     = [Relaunch, Quit]"
  using showError_click [where h = "scripted_host 1 [] None" and ?message0.0 = "Some ''boom''"
      and r = "\<lparr>response = 1, checkboxChecked = False\<rparr>" and ?callback0.0 = "Some report_box"]
  by (simp add: scripted_host_def report_box_def messageBoxOptions_def)

text \<open>
  Claim C2, as stated, fails: after the relaunch and the quit the handler goes on to
  line 196 and invokes the caller's callback. On a host where the user clicks Restart,
  the caller observes its callback after the quit.
\<close>

theorem showError_callback_after_quit:
  "after_quit (run (scripted_host 1 [] None)
     (showError (scripted_host 1 [] None) (Some ''boom'') (Some report_box)))
   = [Did (Callback None (Some (BoxResult \<lparr>response = 1, checkboxChecked = False\<rparr>)))]"
  by (simp add: after_quit_def scripted_host_def report_box_def showError_def Let_def
      createMessageDialog_def messageBoxOptions_def appProductName_def)

text \<open>
  Claim C2, amended. When the host resolves the error dialog with index 1, the relaunch
  and then the quit are issued after the host's answer and never before it; likewise the
  quit for index 2. After these actions the caller's callback is still invoked with
  \<open>(null, result)\<close>. The whole run is: the effects before the request, none of them a
  relaunch or a quit; the request; the host's answer; the relaunch and the quit that the
  clicked button asks for; the callback, inside the promise chain of
  \<open>createMessageDialog\<close>, whose \<^verbatim>\<open>.catch\<close> handler sees what the callback throws.
\<close>

theorem showError_terminal_actions_follow_answer:
  assumes "showMessageBox h
             (messageBoxOptions ''Error'' (default_arg ''Error'' message0)
                [''Dismiss'', ''Restart'', ''Quit''] ''error'') = Inr r"
  shows "run h (showError h message0 callback0) =
     [Did (Log Debug ''showError'')]
     @ (if isMacOS h then [Did (Bounce ''critical'')] else [])
     @ [Did Focus, Did (Log Debug ''createMessageDialog''),
        MessageBoxRequested
          (messageBoxOptions ''Error'' (default_arg ''Error'' message0)
             [''Dismiss'', ''Restart'', ''Quit''] ''error''),
        MessageBoxSettled (Inr r),
        Did (Log Debug ''createMessageDialog'')]
     @ (if response r = 1 then [Did Relaunch, Did Quit]
        else if response r = 2 then [Did Quit]
        else [])
     @ run h (caught (default_arg noop callback0 None (Some r))
          (\<lambda>error. Act (Log Err ''createMessageDialog'')
             (Act (Log Err ''showError'') (default_arg noop callback0 (Some error) None))))"
  by (simp add: run_showError_resolved [OF assms])

theorem showError_terminal_actions_follow_answer_witness:
  "showMessageBox (scripted_host 2 [] None)
     (messageBoxOptions ''Error'' (default_arg ''Error'' (Some ''boom''))
        [''Dismiss'', ''Restart'', ''Quit''] ''error'')
     = Inr \<lparr>response = 2, checkboxChecked = False\<rparr>
   \<and> run (scripted_host 2 [] None)
         (showError (scripted_host 2 [] None) (Some ''boom'') (Some report_box))
     = [Did (Log Debug ''showError''), Did (Bounce ''critical''), Did Focus,
        Did (Log Debug ''createMessageDialog''),
        MessageBoxRequested
          \<lparr>type = ''error'', title = ''Error'', message = ''Error'', detail = ''boom'',
           buttons = [''Dismiss'', ''Restart'', ''Quit''], cancelId = 0, defaultId = 0\<rparr>,
        MessageBoxSettled (Inr \<lparr>response = 2, checkboxChecked = False\<rparr>),
        Did (Log Debug ''createMessageDialog''),
        Did Quit,
        Did (Callback None (Some (BoxResult \<lparr>response = 2, checkboxChecked = False\<rparr>)))]"
  using showError_terminal_actions_follow_answer
    [where h = "scripted_host 2 [] None" and ?message0.0 = "Some ''boom''"
      and r = "\<lparr>response = 2, checkboxChecked = False\<rparr>" and ?callback0.0 = "Some report_box"]
  by (simp add: scripted_host_def report_box_def messageBoxOptions_def)

subsection \<open>The file picker\<close>

text \<open>
  Claim C3, as stated, fails in "exactly once". The callback \<^verbatim>\<open>() => callback(error)\<close>
  of line 246 runs inside the \<^verbatim>\<open>.then\<close> handler of the warning dialog (lines 61 to 66).
  When the caller's callback throws, the \<^verbatim>\<open>.catch\<close> handler of lines 67 to 73 sees the
  exception and calls the same callback again: the caller's callback is entered twice
  with the error of the probe.
\<close>

theorem openFile_missing_file_callback_twice:
  "callbacks (events (run_call (scripted_host 0 [''/tmp/gone.txt''] (Some (Error ''ENOENT'')))
     (openFile (scripted_host 0 [''/tmp/gone.txt''] (Some (Error ''ENOENT'')))
        (Some ''Open'') None (Some ''/tmp'') (Some report_path_and_throw))))
   = [Callback (Some (Error ''ENOENT'')) None, Callback (Some (Error ''ENOENT'')) None]"
  by (simp add: scripted_host_def report_path_and_throw_def events_def run_call_def
      openFile_def eval_initialFolder_def openDialogOptions_def appProductName_def Let_def
      posix_normalize_def checkFileExists_def showWarning_def createMessageDialog_def
      messageBoxOptions_def)

text \<open>
  Claim C3, amended. For every call of \<open>openFile\<close> in which the existence probe fails on
  the picked path, a warning dialog is shown, titled \<^verbatim>\<open>Warning\<close>, whose message text (the
  argument of \<open>showWarning\<close>, which the message box carries in its \<^verbatim>\<open>detail\<close> field) is
  \<^verbatim>\<open>File not found.\<close> followed by the end-of-line string. The caller's callback is invoked
  after the host has settled that warning dialog, whichever way it settled it, with the
  error of the probe as its first argument and no second argument; it is invoked exactly
  once provided that this invocation does not throw. The first conjunct is the run for
  any callback, the callback being inside the promise chain of the warning dialog when
  the dialog resolved; the second is the run for a callback that does not throw. (A call
  gets as far as the picker when the value of \<^verbatim>\<open>initialFolder\<close> is there: the first
  hypothesis.)
\<close>

theorem openFile_missing_file:
  assumes "eval_initialFolder h initialFolder0 = Inr folder"
    and "showOpenDialog h
           (openDialogOptions (default_arg (app_name h) dialogTitle0) folder
              (default_arg [''*''] fileExtensionList0)) = Inr result"
    and "filePaths result = first # rest"
    and "access h (path_normalize h first) = Some e"
  shows "run_call h (openFile h dialogTitle0 fileExtensionList0 initialFolder0 callback0) =
     Trace ([Did (Log Debug ''openFile''),
        OpenDialogRequested
          (openDialogOptions (default_arg (app_name h) dialogTitle0) folder
             (default_arg [''*''] fileExtensionList0)),
        OpenDialogSettled (Inr result),
        Did (Log Debug ''checkFileExists''),
        AccessRequested (path_normalize h first),
        AccessSettled (Some e),
        Did (Log Err ''checkFileExists''),
        Did (Log Warn ''openFile''),
        Did (Log Debug ''showWarning''),
        Did (Log Debug ''createMessageDialog''),
        MessageBoxRequested
          \<lparr>type = ''warning'', title = ''Warning'', message = ''Warning'',
           detail = ''File not found.'' @ EOL h, buttons = [''Dismiss''],
           cancelId = 0, defaultId = 0\<rparr>,
        MessageBoxSettled (showMessageBox h
          \<lparr>type = ''warning'', title = ''Warning'', message = ''Warning'',
           detail = ''File not found.'' @ EOL h, buttons = [''Dismiss''],
           cancelId = 0, defaultId = 0\<rparr>),
        Did (Log (case showMessageBox h
          \<lparr>type = ''warning'', title = ''Warning'', message = ''Warning'',
           detail = ''File not found.'' @ EOL h, buttons = [''Dismiss''],
           cancelId = 0, defaultId = 0\<rparr> of Inr r \<Rightarrow> Debug | Inl x \<Rightarrow> Err)
          ''createMessageDialog'')]
       @ run h (case showMessageBox h
          \<lparr>type = ''warning'', title = ''Warning'', message = ''Warning'',
           detail = ''File not found.'' @ EOL h, buttons = [''Dismiss''],
           cancelId = 0, defaultId = 0\<rparr> of
             Inr r \<Rightarrow> caught (default_arg noop callback0 (Some e) None)
                        (\<lambda>error. Act (Log Err ''createMessageDialog'')
                           (default_arg noop callback0 (Some e) None))
           | Inl x \<Rightarrow> default_arg noop callback0 (Some e) None))
   \<and> (thrown (default_arg noop callback0 (Some e) None) = None \<longrightarrow>
     run_call h (openFile h dialogTitle0 fileExtensionList0 initialFolder0 callback0) =
     Trace ([Did (Log Debug ''openFile''),
        OpenDialogRequested
          (openDialogOptions (default_arg (app_name h) dialogTitle0) folder
             (default_arg [''*''] fileExtensionList0)),
        OpenDialogSettled (Inr result),
        Did (Log Debug ''checkFileExists''),
        AccessRequested (path_normalize h first),
        AccessSettled (Some e),
        Did (Log Err ''checkFileExists''),
        Did (Log Warn ''openFile''),
        Did (Log Debug ''showWarning''),
        Did (Log Debug ''createMessageDialog''),
        MessageBoxRequested
          \<lparr>type = ''warning'', title = ''Warning'', message = ''Warning'',
           detail = ''File not found.'' @ EOL h, buttons = [''Dismiss''],
           cancelId = 0, defaultId = 0\<rparr>,
        MessageBoxSettled (showMessageBox h
          \<lparr>type = ''warning'', title = ''Warning'', message = ''Warning'',
           detail = ''File not found.'' @ EOL h, buttons = [''Dismiss''],
           cancelId = 0, defaultId = 0\<rparr>),
        Did (Log (case showMessageBox h
          \<lparr>type = ''warning'', title = ''Warning'', message = ''Warning'',
           detail = ''File not found.'' @ EOL h, buttons = [''Dismiss''],
           cancelId = 0, defaultId = 0\<rparr> of Inr r \<Rightarrow> Debug | Inl x \<Rightarrow> Err)
          ''createMessageDialog'')]
       @ run h (default_arg noop callback0 (Some e) None)))"
  by (simp add: run_openFile_missing [OF assms] caught_returns split: sum.split)

theorem openFile_missing_file_witness:
  "thrown (default_arg noop (Some report_path) (Some (Error ''ENOENT'')) None) = None
   \<and> run_call (scripted_host 0 [''/tmp/gone.txt''] (Some (Error ''ENOENT'')))
     (openFile (scripted_host 0 [''/tmp/gone.txt''] (Some (Error ''ENOENT'')))
        (Some ''Open'') None (Some ''/tmp'') (Some report_path)) =
     Trace [Did (Log Debug ''openFile''),
        OpenDialogRequested
          \<lparr>dialog_title = ''Open'',
           properties = [''openFile'', ''showHiddenFiles'', ''treatPackageAsDirectory''],
           defaultPath = ''/tmp'',
           filters = [\<lparr>filter_name = ''Filter'', extensions = [''*'']\<rparr>]\<rparr>,
        OpenDialogSettled (Inr \<lparr>canceled = False, filePaths = [''/tmp/gone.txt'']\<rparr>),
        Did (Log Debug ''checkFileExists''),
        AccessRequested ''/tmp/gone.txt'',
        AccessSettled (Some (Error ''ENOENT'')),
        Did (Log Err ''checkFileExists''),
        Did (Log Warn ''openFile''),
        Did (Log Debug ''showWarning''),
        Did (Log Debug ''createMessageDialog''),
        MessageBoxRequested
          \<lparr>type = ''warning'', title = ''Warning'', message = ''Warning'',
           detail = ''File not found.'' @ [CHR 0x0A], buttons = [''Dismiss''],
           cancelId = 0, defaultId = 0\<rparr>,
        MessageBoxSettled (Inr \<lparr>response = 0, checkboxChecked = False\<rparr>),
        Did (Log Debug ''createMessageDialog''),
        Did (Callback (Some (Error ''ENOENT'')) None)]"
  using openFile_missing_file
    [where h = "scripted_host 0 [''/tmp/gone.txt''] (Some (Error ''ENOENT''))"
      and ?initialFolder0.0 = "Some ''/tmp''" and folder = "''/tmp''"
      and ?dialogTitle0.0 = "Some ''Open''" and ?fileExtensionList0.0 = None
      and result = "\<lparr>canceled = False, filePaths = [''/tmp/gone.txt'']\<rparr>"
      and first = "''/tmp/gone.txt''" and rest = "[]" and e = "Error ''ENOENT''"
      and ?callback0.0 = "Some report_path"]
  by (simp add: scripted_host_def report_path_def eval_initialFolder_def openDialogOptions_def
      posix_normalize_def)

text \<open>
  Claim C4. For every call of \<open>openFile\<close> in which the picker resolves with an empty
  path list, the callback receives the error \<^verbatim>\<open>file selection empty\<close> and no result, and
  the existence probe is not invoked: between the picker's answer and the callback there
  is one log entry and nothing else. The callback runs inside the promise chain of the
  picker, whose \<^verbatim>\<open>.catch\<close> handler (lines 253 to 259) sees what the callback throws; a
  callback that does not throw is run as it is (\<open>caught_returns\<close>).
\<close>

theorem openFile_empty_selection:
  assumes "eval_initialFolder h initialFolder0 = Inr folder"
    and "showOpenDialog h
           (openDialogOptions (default_arg (app_name h) dialogTitle0) folder
              (default_arg [''*''] fileExtensionList0)) = Inr result"
    and "filePaths result = []"
  shows "run_call h (openFile h dialogTitle0 fileExtensionList0 initialFolder0 callback0) =
     Trace ([Did (Log Debug ''openFile''),
        OpenDialogRequested
          (openDialogOptions (default_arg (app_name h) dialogTitle0) folder
             (default_arg [''*''] fileExtensionList0)),
        OpenDialogSettled (Inr result),
        Did (Log Warn ''openFile'')]
       @ run h (caught (default_arg noop callback0 (Some (Error ''file selection empty'')) None)
            (\<lambda>error. Act (Log Err ''openFile'')
               (default_arg noop callback0 (Some error) None))))"
  by (rule run_openFile_empty [OF assms])

theorem openFile_empty_selection_witness:
  "run_call (scripted_host 0 [] None)
     (openFile (scripted_host 0 [] None) (Some ''Open'') (Some [''txt''])
        (Some ''/tmp'') (Some report_path)) =
     Trace [Did (Log Debug ''openFile''),
        OpenDialogRequested
          \<lparr>dialog_title = ''Open'',
           properties = [''openFile'', ''showHiddenFiles'', ''treatPackageAsDirectory''],
           defaultPath = ''/tmp'',
           filters = [\<lparr>filter_name = ''Filter'', extensions = [''txt'']\<rparr>]\<rparr>,
        OpenDialogSettled (Inr \<lparr>canceled = True, filePaths = []\<rparr>),
        Did (Log Warn ''openFile''),
        Did (Callback (Some (Error ''file selection empty'')) None)]"
  using openFile_empty_selection
    [where h = "scripted_host 0 [] None"
      and ?initialFolder0.0 = "Some ''/tmp''" and folder = "''/tmp''"
      and ?dialogTitle0.0 = "Some ''Open''" and ?fileExtensionList0.0 = "Some [''txt'']"
      and result = "\<lparr>canceled = True, filePaths = []\<rparr>"
      and ?callback0.0 = "Some report_path"]
  by (simp add: scripted_host_def report_path_def eval_initialFolder_def openDialogOptions_def)

text \<open>
  Claim C5. For every call of \<open>openFile\<close> in which the picker resolves with a non-empty
  path list, the first path is normalised, the existence probe runs on the normalised
  path, and when the probe succeeds the callback receives \<open>(null, normalised path)\<close>.
  The normalisation is the platform's \<^verbatim>\<open>path.normalize\<close>; its POSIX variant, as modelled
  by \<open>posix_normalize\<close>, turns \<^verbatim>\<open>./a/../b.txt\<close> into \<^verbatim>\<open>b.txt\<close>.
\<close>

theorem openFile_normalizes_first_path:
  assumes "eval_initialFolder h initialFolder0 = Inr folder"
    and "showOpenDialog h
           (openDialogOptions (default_arg (app_name h) dialogTitle0) folder
              (default_arg [''*''] fileExtensionList0)) = Inr result"
    and "filePaths result = first # rest"
    and "access h (path_normalize h first) = None"
  shows "run_call h (openFile h dialogTitle0 fileExtensionList0 initialFolder0 callback0) =
     Trace ([Did (Log Debug ''openFile''),
        OpenDialogRequested
          (openDialogOptions (default_arg (app_name h) dialogTitle0) folder
             (default_arg [''*''] fileExtensionList0)),
        OpenDialogSettled (Inr result),
        Did (Log Debug ''checkFileExists''),
        AccessRequested (path_normalize h first),
        AccessSettled None]
       @ run h (default_arg noop callback0 None (Some (path_normalize h first))))
     \<and> posix_normalize ''./a/../b.txt'' = ''b.txt''"
  by (simp add: run_openFile_found [OF assms] posix_normalize_def)

theorem openFile_normalizes_first_path_witness:
  "run_call (scripted_host 0 [''./a/../b.txt'', ''c.txt''] None)
     (openFile (scripted_host 0 [''./a/../b.txt'', ''c.txt''] None) None None
        (Some ''/tmp'') (Some report_path)) =
     Trace [Did (Log Debug ''openFile''),
        OpenDialogRequested
          \<lparr>dialog_title = ''Demo'',
           properties = [''openFile'', ''showHiddenFiles'', ''treatPackageAsDirectory''],
           defaultPath = ''/tmp'',
           filters = [\<lparr>filter_name = ''Filter'', extensions = [''*'']\<rparr>]\<rparr>,
        OpenDialogSettled
          (Inr \<lparr>canceled = False, filePaths = [''./a/../b.txt'', ''c.txt'']\<rparr>),
        Did (Log Debug ''checkFileExists''),
        AccessRequested ''b.txt'',
        AccessSettled None,
        Did (Callback None (Some (PathResult ''b.txt'')))]"
  using openFile_normalizes_first_path
    [where h = "scripted_host 0 [''./a/../b.txt'', ''c.txt''] None"
      and ?initialFolder0.0 = "Some ''/tmp''" and folder = "''/tmp''"
      and ?dialogTitle0.0 = None and ?fileExtensionList0.0 = None
      and result = "\<lparr>canceled = False, filePaths = [''./a/../b.txt'', ''c.txt'']\<rparr>"
      and first = "''./a/../b.txt''" and rest = "[''c.txt'']"
      and ?callback0.0 = "Some report_path"]
  by (simp add: scripted_host_def report_path_def eval_initialFolder_def openDialogOptions_def
      posix_normalize_def)

text \<open>
  Claim C8 says that \<open>openFile\<close> called without its optional parameters asks for a
  picker titled with the application's name, with the wildcard filter, rooted at a base
  path of the host. The code does not get that far: the default of \<^verbatim>\<open>initialFolder\<close>
  reads the identifier \<^verbatim>\<open>name\<close>, which nothing binds, and the call throws before its
  body starts. No picker is requested and the callback is never invoked.
\<close>

theorem openFile_default_folder_throws:
  assumes "global_name h = None"
  shows "run_call h (openFile h dialogTitle0 fileExtensionList0 None callback0) =
     Thrown (ReferenceError ''name is not defined'')"
  using assms
  by (simp add: openFile_def run_call_def eval_initialFolder_def default_initialFolder_def)

theorem openFile_default_folder_throws_witness:
  "global_name (scripted_host 0 [''/tmp/a.txt''] None) = None
   \<and> run_call (scripted_host 0 [''/tmp/a.txt''] None)
         (openFile (scripted_host 0 [''/tmp/a.txt''] None) None None None (Some report_path))
       = Thrown (ReferenceError ''name is not defined'')"
  using openFile_default_folder_throws
    [where h = "scripted_host 0 [''/tmp/a.txt''] None" and ?dialogTitle0.0 = None
      and ?fileExtensionList0.0 = None and ?callback0.0 = "Some report_path"]
  by (simp add: scripted_host_def)

subsection \<open>The message dialogs\<close>




text \<open>
  Claim C7. The call \<^verbatim>\<open>showInformation("Update", "A new version is available")\<close> has the
  host show a message box with title \<^verbatim>\<open>Update\<close>, the single button \<^verbatim>\<open>Dismiss\<close> and kind
  \<^verbatim>\<open>info\<close>; when the host resolves it with a click on that button, index 0, the callback
  receives \<open>(null, result)\<close>, the result being the host's, with index 0.
\<close>

theorem showInformation_update:
  assumes "showMessageBox h
             \<lparr>type = ''info'', title = ''Update'', message = ''Update'',
              detail = ''A new version is available'', buttons = [''Dismiss''],
              cancelId = 0, defaultId = 0\<rparr> = Inr \<lparr>response = 0, checkboxChecked = c\<rparr>"
  shows "run h (showInformation h (Some ''Update'') (Some ''A new version is available'')
                  (Some report_box)) =
     [Did (Log Debug ''showInformation''),
      Did (Log Debug ''createMessageDialog''),
      MessageBoxRequested
        \<lparr>type = ''info'', title = ''Update'', message = ''Update'',
         detail = ''A new version is available'', buttons = [''Dismiss''],
         cancelId = 0, defaultId = 0\<rparr>,
      MessageBoxSettled (Inr \<lparr>response = 0, checkboxChecked = c\<rparr>),
      Did (Log Debug ''createMessageDialog''),
      Did (Callback None (Some (BoxResult \<lparr>response = 0, checkboxChecked = c\<rparr>)))]"
  using assms
  by (simp add: run_showInformation run_createMessageDialog messageBoxOptions_def
      report_box_def)

theorem showInformation_update_witness:
  "run (scripted_host 0 [] None)
     (showInformation (scripted_host 0 [] None) (Some ''Update'')
        (Some ''A new version is available'') (Some report_box)) =
     [Did (Log Debug ''showInformation''),
      Did (Log Debug ''createMessageDialog''),
      MessageBoxRequested
        \<lparr>type = ''info'', title = ''Update'', message = ''Update'',
         detail = ''A new version is available'', buttons = [''Dismiss''],
         cancelId = 0, defaultId = 0\<rparr>,
      MessageBoxSettled (Inr \<lparr>response = 0, checkboxChecked = False\<rparr>),
      Did (Log Debug ''createMessageDialog''),
      Did (Callback None (Some (BoxResult \<lparr>response = 0, checkboxChecked = False\<rparr>)))]"
  using showInformation_update [where h = "scripted_host 0 [] None" and c = False]
  by (simp add: scripted_host_def)

text \<open>
  Claim C9. For every call of \<open>showConfirmation\<close>, whatever its title, message and
  callback, the first four events are: the log entry, the request for foreground focus,
  the log entry of \<open>createMessageDialog\<close>, and the request for a message box with the
  buttons \<^verbatim>\<open>No\<close> (index 0) and \<^verbatim>\<open>Yes\<close> (index 1) and the kind \<^verbatim>\<open>question\<close>. The focus is
  requested before the dialog.
\<close>

theorem showConfirmation_focus_then_dialog:
  "take 4 (run h (showConfirmation h title0 message0 callback0)) =
     [Did (Log Debug ''showConfirmation''),
      Did Focus,
      Did (Log Debug ''createMessageDialog''),
      MessageBoxRequested
        \<lparr>type = ''question'',
         title = default_arg (app_name h) title0,
         message = default_arg (app_name h) title0,
         detail = default_arg (default_arg (app_name h) title0) message0,
         buttons = [''No'', ''Yes''],
         cancelId = 0, defaultId = 0\<rparr>]"
  by (simp add: run_showConfirmation run_createMessageDialog messageBoxOptions_def)

theorem showConfirmation_focus_then_dialog_witness:
  "take 4 (run (scripted_host 1 [] None)
     (showConfirmation (scripted_host 1 [] None) (Some ''Delete'') (Some ''Really?'')
        (Some report_box))) =
     [Did (Log Debug ''showConfirmation''),
      Did Focus,
      Did (Log Debug ''createMessageDialog''),
      MessageBoxRequested
        \<lparr>type = ''question'', title = ''Delete'', message = ''Delete'',
         detail = ''Really?'', buttons = [''No'', ''Yes''],
         cancelId = 0, defaultId = 0\<rparr>]"
  using showConfirmation_focus_then_dialog
    [where h = "scripted_host 1 [] None" and ?title0.0 = "Some ''Delete''"
      and ?message0.0 = "Some ''Really?''" and ?callback0.0 = "Some report_box"]
  by simp

text \<open>
  Claim C10. In the message box that each of the four message-dialog operations
  requests, the \<^verbatim>\<open>message\<close> field is the title of the dialog, and the message text of the
  caller is in the \<^verbatim>\<open>detail\<close> field (the title again when the caller gives no message).
  Each triple below is the title, the \<^verbatim>\<open>message\<close> field and the \<^verbatim>\<open>detail\<close> field of the
  first message box of the run, which is the operation's own.
\<close>

theorem message_field_is_title:
  "take 1 (texts (run h (showInformation h title0 message0 callback0)))
     = [(default_arg (app_name h) title0, default_arg (app_name h) title0,
         default_arg (default_arg (app_name h) title0) message0)]
   \<and> take 1 (texts (run h (showWarning h message0 callback0)))
     = [(''Warning'', ''Warning'', default_arg ''Warning'' message0)]
   \<and> take 1 (texts (run h (showConfirmation h title0 message0 callback0)))
     = [(default_arg (app_name h) title0, default_arg (app_name h) title0,
         default_arg (default_arg (app_name h) title0) message0)]
   \<and> take 1 (texts (run h (showError h message0 callback0)))
     = [(''Error'', ''Error'', default_arg ''Error'' message0)]"
proof -
  have info: "take 1 (texts (run h (showInformation h title0 message0 callback0)))
     = [(default_arg (app_name h) title0, default_arg (app_name h) title0,
         default_arg (default_arg (app_name h) title0) message0)]"
    by (simp add: texts_def run_showInformation run_createMessageDialog messageBoxOptions_def)
  have warn: "take 1 (texts (run h (showWarning h message0 callback0)))
     = [(''Warning'', ''Warning'', default_arg ''Warning'' message0)]"
    by (simp add: texts_def run_showWarning run_createMessageDialog messageBoxOptions_def)
  have conf: "take 1 (texts (run h (showConfirmation h title0 message0 callback0)))
     = [(default_arg (app_name h) title0, default_arg (app_name h) title0,
         default_arg (default_arg (app_name h) title0) message0)]"
    by (simp add: texts_def run_showConfirmation run_createMessageDialog messageBoxOptions_def)
  have err: "take 1 (texts (run h (showError h message0 callback0)))
     = [(''Error'', ''Error'', default_arg ''Error'' message0)]"
    by (simp add: texts_def showError_def Let_def run_createMessageDialog messageBoxOptions_def)
  from info warn conf err show ?thesis
    by (intro conjI)
qed

theorem message_field_is_title_witness:
  "take 1 (texts (run (scripted_host 0 [] None)
     (showInformation (scripted_host 0 [] None) (Some ''Update'')
        (Some ''A new version is available'') None)))
     = [(''Update'', ''Update'', ''A new version is available'')]
   \<and> take 1 (texts (run (scripted_host 0 [] None)
     (showError (scripted_host 0 [] None) (Some ''Disk full'') None)))
     = [(''Error'', ''Error'', ''Disk full'')]"
  using message_field_is_title
    [where h = "scripted_host 0 [] None" and ?title0.0 = "Some ''Update''"
      and ?message0.0 = "Some ''A new version is available''" and ?callback0.0 = None]
    message_field_is_title
    [where h = "scripted_host 0 [] None" and ?title0.0 = None
      and ?message0.0 = "Some ''Disk full''" and ?callback0.0 = None]
  by simp

end
